theory Spec2Isabelle
  imports Complex_Main "HOL-Library.AList"
begin

section \<open>Data model\<close>

text \<open>
  The service keeps its state in four storage tables that the modelled code reads and
  writes: \<open>balance\<close>, \<open>transaction\<close>, \<open>leaderboardEntry\<close> and
  \<open>prizeDistribution\<close>. A table is the list of its rows in insertion order.
  A TypeScript \<open>number\<close> is an exact rational here: IEEE rounding, NaN and the
  infinities are outside the model. Logging, event publication and the audit table are
  not read by any modelled operation and are left out; so are the storage-generated
  \<open>id\<close> and \<open>createdAt\<close> of a transaction row.
\<close>

type_synonym number = rat

record Balance =
  userId :: string
  available :: number
  pending :: number

datatype TransactionType = DEPOSIT | RESERVATION | PAYOUT | REFUND | FUNDING

record Transaction =
  tx_userId :: string
  tx_campaignId :: "string option"
  tx_amount :: number
  tx_type :: TransactionType
  tx_description :: string

record LeaderboardEntry =
  le_id :: nat
  le_campaignId :: string
  le_editorId :: string
  le_submissionId :: string
  le_views :: number
  le_likes :: number
  le_engagement :: number
  le_score :: number
  le_rank :: int

record PrizeDistribution =
  pd_campaignId :: string
  pd_position :: int
  pd_reward :: number
  pd_label :: string

record db =
  balances :: "Balance list"
  transactions :: "Transaction list"
  leaderboardEntries :: "LeaderboardEntry list"
  prizeDistributions :: "PrizeDistribution list"

text \<open>
  The errors of \<open>lib/errors\<close>: \<open>badRequest\<close> and \<open>notFound\<close> carry their
  message. \<open>RecordNotFound\<close> is what the storage client raises when an update names a
  row that does not exist.
\<close>

datatype error = BadRequest string | NotFound string | RecordNotFound

section \<open>Storage primitives on the balance table\<close>

definition balance_findUnique :: "string \<Rightarrow> Balance list \<Rightarrow> Balance option" where
  "balance_findUnique u bs = find (\<lambda>b. userId b = u) bs"

primrec update_first :: "string \<Rightarrow> (Balance \<Rightarrow> Balance) \<Rightarrow> Balance list \<Rightarrow> Balance list" where
  "update_first u f [] = []"
| "update_first u f (b # bs) = (if userId b = u then f b # bs else b # update_first u f bs)"

text \<open>\<open>update\<close> changes the one row with the given key and returns it; a missing row is an error.\<close>

definition balance_update ::
  "string \<Rightarrow> (Balance \<Rightarrow> Balance) \<Rightarrow> Balance list \<Rightarrow> (Balance \<times> Balance list) option" where
  "balance_update u f bs =
     (case balance_findUnique u bs of
        None \<Rightarrow> None
      | Some b \<Rightarrow> Some (f b, update_first u f bs))"

definition balance_create :: "Balance \<Rightarrow> Balance list \<Rightarrow> Balance \<times> Balance list" where
  "balance_create b bs = (b, bs @ [b])"

text \<open>\<open>upsert\<close>: update the row when it exists, create it otherwise.\<close>

definition balance_upsert ::
  "string \<Rightarrow> Balance \<Rightarrow> (Balance \<Rightarrow> Balance) \<Rightarrow> Balance list \<Rightarrow> Balance \<times> Balance list" where
  "balance_upsert u c f bs =
     (case balance_update u f bs of
        None \<Rightarrow> balance_create c bs
      | Some r \<Rightarrow> r)"

section \<open>balanceService\<close>

text \<open>
  Every operation takes the storage state and returns its result together with the state
  it leaves. An exception inside \<open>prisma.$transaction\<close> rolls the transaction back, so
  the state returned with an error is the state the operation started from.
\<close>

definition getBalance :: "string \<Rightarrow> db \<Rightarrow> Balance \<times> db" where
  "getBalance u st =
     (case balance_findUnique u (balances st) of
        Some balance \<Rightarrow> (balance, st)
      | None \<Rightarrow>
          (case balance_create \<lparr>userId = u, available = 0, pending = 0\<rparr> (balances st) of
             (balance, bs) \<Rightarrow> (balance, st\<lparr>balances := bs\<rparr>)))"

definition addFunds ::
  "string \<Rightarrow> number \<Rightarrow> string option \<Rightarrow> string option \<Rightarrow> db
     \<Rightarrow> (error + Balance \<times> Transaction) \<times> db" where
  "addFunds u amount campaignId description st =
     (if amount \<le> 0 then (Inl (BadRequest ''Amount must be positive''), st)
      else
        (case balance_upsert u \<lparr>userId = u, available = amount, pending = 0\<rparr>
                (\<lambda>b. b\<lparr>available := available b + amount\<rparr>) (balances st) of
           (balance, bs) \<Rightarrow>
             (let transaction =
                    \<lparr>tx_userId = u, tx_campaignId = campaignId, tx_amount = amount,
                     tx_type = DEPOSIT,
                     tx_description =
                       (case description of None \<Rightarrow> ''Funds added'' | Some d \<Rightarrow> d)\<rparr>
              in (Inr (balance, transaction),
                  st\<lparr>balances := bs, transactions := transactions st @ [transaction]\<rparr>))))"

definition reserveFunds ::
  "string \<Rightarrow> number \<Rightarrow> string \<Rightarrow> string \<Rightarrow> db \<Rightarrow> (error + Balance \<times> Transaction) \<times> db" where
  "reserveFunds u amount campaignId description st =
     (if amount \<le> 0 then (Inl (BadRequest ''Amount must be positive''), st)
      else
        (let bs0 =
               (case balance_findUnique u (balances st) of
                  None \<Rightarrow>
                    snd (balance_create \<lparr>userId = u, available = 0, pending = 0\<rparr> (balances st))
                | Some current \<Rightarrow> balances st)
         in case balance_update u (\<lambda>b. b\<lparr>pending := pending b + amount\<rparr>) bs0 of
              None \<Rightarrow> (Inl RecordNotFound, st)
            | Some (balance, bs) \<Rightarrow>
                (let transaction =
                       \<lparr>tx_userId = u, tx_campaignId = Some campaignId, tx_amount = amount,
                        tx_type = RESERVATION, tx_description = description\<rparr>
                 in (Inr (balance, transaction),
                     st\<lparr>balances := bs, transactions := transactions st @ [transaction]\<rparr>))))"

definition releasePending ::
  "string \<Rightarrow> number \<Rightarrow> string \<Rightarrow> string \<Rightarrow> db \<Rightarrow> (error + Balance \<times> Transaction) \<times> db" where
  "releasePending u amount campaignId description st =
     (if amount \<le> 0 then (Inl (BadRequest ''Amount must be positive''), st)
      else
        (case balance_findUnique u (balances st) of
           None \<Rightarrow> (Inl (NotFound (''Balance not found for user '' @ u)), st)
         | Some current \<Rightarrow>
             if pending current < amount
             then (Inl (BadRequest ''Insufficient pending balance''), st)
             else
               (case balance_update u
                       (\<lambda>b. b\<lparr>available := available b + amount,
                               pending := pending b - amount\<rparr>) (balances st) of
                  None \<Rightarrow> (Inl RecordNotFound, st)
                | Some (balance, bs) \<Rightarrow>
                    (let transaction =
                           \<lparr>tx_userId = u, tx_campaignId = Some campaignId,
                            tx_amount = amount, tx_type = PAYOUT,
                            tx_description = description\<rparr>
                     in (Inr (balance, transaction),
                         st\<lparr>balances := bs,
                            transactions := transactions st @ [transaction]\<rparr>)))))"

definition refundToCreator ::
  "string \<Rightarrow> number \<Rightarrow> string \<Rightarrow> string \<Rightarrow> db \<Rightarrow> (error + Balance \<times> Transaction) \<times> db" where
  "refundToCreator u amount campaignId description st =
     (if amount \<le> 0 then (Inl (BadRequest ''Amount must be positive''), st)
      else
        (case balance_upsert u \<lparr>userId = u, available = amount, pending = 0\<rparr>
                (\<lambda>b. b\<lparr>available := available b + amount\<rparr>) (balances st) of
           (balance, bs) \<Rightarrow>
             (let transaction =
                    \<lparr>tx_userId = u, tx_campaignId = Some campaignId, tx_amount = amount,
                     tx_type = REFUND, tx_description = description\<rparr>
              in (Inr (balance, transaction),
                  st\<lparr>balances := bs, transactions := transactions st @ [transaction]\<rparr>))))"

section \<open>Event handler: campaign.funded\<close>

text \<open>
  The handler of \<open>campaign.funded\<close> in \<open>setupEventHandlers\<close>, from the payload's
  \<open>campaignId\<close>, \<open>amount\<close> and \<open>fundedBy\<close>: one \<open>transaction.create\<close>, then the
  audit entry and the acknowledgement, which touch no modelled table.
\<close>

definition handleCampaignFunded :: "string \<Rightarrow> number \<Rightarrow> string \<Rightarrow> db \<Rightarrow> db" where
  "handleCampaignFunded campaignId amount fundedBy st =
     st\<lparr>transactions := transactions st @
          [\<lparr>tx_userId = fundedBy, tx_campaignId = Some campaignId, tx_amount = amount,
            tx_type = FUNDING, tx_description = ''Campaign funded: '' @ campaignId\<rparr>]\<rparr>"

section \<open>payoutService: calculateClipPayment\<close>





section \<open>prizeService: leaderboard\<close>

datatype LeaderboardMetric = VIEWS | LIKES | ENGAGEMENT

record ClipData =
  clip_id :: string
  clip_userId :: string
  clip_campaignId :: string
  clip_views :: number
  clip_likes :: number
  clip_engagement :: number
  clip_status :: string

text \<open>
  Modelled from the spec: the storage's \<open>orderBy\<close> and JavaScript's \<open>Array.sort\<close> are
  not part of the sources. Both are taken as stable sorts: rows with equal keys keep the
  order in which they were fetched.
\<close>

definition orderByDesc :: "('a \<Rightarrow> number) \<Rightarrow> 'a list \<Rightarrow> 'a list" where
  "orderByDesc key rows = sort_key (\<lambda>r. - key r) rows"

definition orderByAsc :: "('a \<Rightarrow> int) \<Rightarrow> 'a list \<Rightarrow> 'a list" where
  "orderByAsc key rows = sort_key key rows"

text \<open>The storage gives a new leaderboard row an id that no row of the table has.\<close>

definition fresh_id :: "LeaderboardEntry list \<Rightarrow> nat" where
  "fresh_id tbl = Suc (foldr max (map le_id tbl) 0)"

primrec entry_update_first ::
  "(LeaderboardEntry \<Rightarrow> bool) \<Rightarrow> (LeaderboardEntry \<Rightarrow> LeaderboardEntry)
     \<Rightarrow> LeaderboardEntry list \<Rightarrow> LeaderboardEntry list" where
  "entry_update_first P f [] = []"
| "entry_update_first P f (e # es) =
     (if P e then f e # es else e # entry_update_first P f es)"

definition entry_update ::
  "(LeaderboardEntry \<Rightarrow> bool) \<Rightarrow> (LeaderboardEntry \<Rightarrow> LeaderboardEntry)
     \<Rightarrow> LeaderboardEntry list \<Rightarrow> (LeaderboardEntry \<times> LeaderboardEntry list) option" where
  "entry_update P f tbl =
     (case find P tbl of
        None \<Rightarrow> None
      | Some e \<Rightarrow> Some (f e, entry_update_first P f tbl))"

definition entry_upsert ::
  "string \<Rightarrow> LeaderboardEntry \<Rightarrow> (LeaderboardEntry \<Rightarrow> LeaderboardEntry)
     \<Rightarrow> LeaderboardEntry list \<Rightarrow> LeaderboardEntry \<times> LeaderboardEntry list" where
  "entry_upsert submissionId c f tbl =
     (case entry_update (\<lambda>e. le_submissionId e = submissionId) f tbl of
        None \<Rightarrow> (let e = c\<lparr>le_id := fresh_id tbl\<rparr> in (e, tbl @ [e]))
      | Some r \<Rightarrow> r)"

definition clipScore :: "LeaderboardMetric \<Rightarrow> ClipData \<Rightarrow> number" where
  "clipScore metric clip =
     (case metric of
        VIEWS \<Rightarrow> clip_views clip
      | LIKES \<Rightarrow> clip_likes clip
      | ENGAGEMENT \<Rightarrow> clip_engagement clip)"

text \<open>The upserts of \<open>calculateLeaderboard\<close>, one per scored clip, in the sorted order.\<close>

fun upsertScored ::
  "string \<Rightarrow> nat \<Rightarrow> (ClipData \<times> number) list \<Rightarrow> db \<Rightarrow> LeaderboardEntry list \<times> db" where
  "upsertScored campaignId index [] st = ([], st)"
| "upsertScored campaignId index ((clip, score) # rest) st =
     (case entry_upsert (clip_id clip)
             \<lparr>le_id = 0, le_campaignId = campaignId, le_editorId = clip_userId clip,
              le_submissionId = clip_id clip, le_views = clip_views clip,
              le_likes = clip_likes clip, le_engagement = clip_engagement clip,
              le_score = score, le_rank = int index + 1\<rparr>
             (\<lambda>e. e\<lparr>le_views := clip_views clip, le_likes := clip_likes clip,
                     le_engagement := clip_engagement clip, le_score := score,
                     le_rank := int index + 1\<rparr>)
             (leaderboardEntries st) of
        (entry, tbl) \<Rightarrow>
          (case upsertScored campaignId (index + 1) rest (st\<lparr>leaderboardEntries := tbl\<rparr>) of
             (entries, st') \<Rightarrow> (entry # entries, st')))"

text \<open>
  \<open>calculateLeaderboard\<close>; the approved clips come from the clip service and are an
  argument here.
\<close>

definition calculateLeaderboard ::
  "string \<Rightarrow> LeaderboardMetric \<Rightarrow> ClipData list \<Rightarrow> db \<Rightarrow> LeaderboardEntry list \<times> db" where
  "calculateLeaderboard campaignId metric clips st =
     (if length clips = 0 then ([], st)
      else
        (let scored = map (\<lambda>clip. (clip, clipScore metric clip)) clips;
             scored = orderByDesc snd scored
         in upsertScored campaignId 0 scored st))"

text \<open>The loop of \<open>finalizeLeaderboard\<close>: the row of \<open>entries[i]\<close> gets rank \<open>i + 1\<close>.\<close>

fun finalizeLoop :: "nat \<Rightarrow> LeaderboardEntry list \<Rightarrow> db \<Rightarrow> error option \<times> db" where
  "finalizeLoop i [] st = (None, st)"
| "finalizeLoop i (entry # rest) st =
     (case entry_update (\<lambda>e. le_id e = le_id entry) (\<lambda>e. e\<lparr>le_rank := int i + 1\<rparr>)
             (leaderboardEntries st) of
        None \<Rightarrow> (Some RecordNotFound, st)
      | Some (_, tbl) \<Rightarrow> finalizeLoop (i + 1) rest (st\<lparr>leaderboardEntries := tbl\<rparr>))"

definition finalizeLeaderboard :: "string \<Rightarrow> db \<Rightarrow> (error + LeaderboardEntry list) \<times> db" where
  "finalizeLeaderboard campaignId st =
     (let entries =
            orderByDesc le_score
              (filter (\<lambda>e. le_campaignId e = campaignId) (leaderboardEntries st))
      in case finalizeLoop 0 entries st of
           (Some err, st') \<Rightarrow> (Inl err, st')
         | (None, st') \<Rightarrow> (Inr entries, st'))"

text \<open>The ranks a campaign's rows hold, in the order of the table.\<close>

definition campaignRanks :: "string \<Rightarrow> db \<Rightarrow> int list" where
  "campaignRanks campaignId st =
     map le_rank (filter (\<lambda>e. le_campaignId e = campaignId) (leaderboardEntries st))"

definition campaignScores :: "string \<Rightarrow> db \<Rightarrow> number list" where
  "campaignScores campaignId st =
     map le_score (filter (\<lambda>e. le_campaignId e = campaignId) (leaderboardEntries st))"

section \<open>prizeService: distributePrizes\<close>

text \<open>A number in a template literal: the decimal digits of an integer, with its sign.\<close>

definition digitChar :: "nat \<Rightarrow> char" where
  "digitChar d = ''0123456789'' ! d"

fun showNat :: "nat \<Rightarrow> string" where
  "showNat n = (if n < 10 then [digitChar n] else showNat (n div 10) @ [digitChar (n mod 10)])"

declare showNat.simps [simp del]

definition showInt :: "int \<Rightarrow> string" where
  "showInt i = (if i < 0 then CHR ''-'' # showNat (nat (- i)) else showNat (nat i))"

record Distributed =
  d_position :: int
  d_editorId :: string
  d_amount :: number
  d_label :: string

text \<open>
  The loop over the prize configuration. A position with no row of that rank is skipped;
  a failing \<open>reserveFunds\<close> is caught and the loop goes on.
\<close>

fun prizeLoop ::
  "string \<Rightarrow> LeaderboardEntry list \<Rightarrow> PrizeDistribution list \<Rightarrow> db \<Rightarrow> Distributed list \<times> db" where
  "prizeLoop campaignId leaderboard [] st = ([], st)"
| "prizeLoop campaignId leaderboard (prize # rest) st =
     (case find (\<lambda>e. le_rank e = pd_position prize) leaderboard of
        None \<Rightarrow> prizeLoop campaignId leaderboard rest st
      | Some entry \<Rightarrow>
          (case reserveFunds (le_editorId entry) (pd_reward prize) campaignId
                  (''Prize: '' @ pd_label prize @ '' (Position #''
                     @ showInt (pd_position prize) @ '')'') st of
             (Inl err, st') \<Rightarrow> prizeLoop campaignId leaderboard rest st'
           | (Inr _, st') \<Rightarrow>
               (case prizeLoop campaignId leaderboard rest st' of
                  (distributed, st'') \<Rightarrow>
                    (\<lparr>d_position = pd_position prize, d_editorId = le_editorId entry,
                      d_amount = pd_reward prize, d_label = pd_label prize\<rparr> # distributed,
                     st''))))"

definition distributePrizes :: "string \<Rightarrow> db \<Rightarrow> Distributed list \<times> db" where
  "distributePrizes campaignId st =
     (let prizeConfig =
            orderByAsc pd_position
              (filter (\<lambda>p. pd_campaignId p = campaignId) (prizeDistributions st))
      in if length prizeConfig = 0 then ([], st)
         else
           (let leaderboard =
                  orderByAsc le_rank
                    (filter (\<lambda>e. le_campaignId e = campaignId) (leaderboardEntries st))
            in prizeLoop campaignId leaderboard prizeConfig st))"

section \<open>Campaign closure saga\<close>

record CampaignClosureData =
  cd_campaignId :: string
  createdBy :: string
  title :: string
  totalBudget :: number
  spentBudget :: number
  isFunded :: bool
  enableLeaderboard :: bool
  hasLeaderboard :: bool

text \<open>
  A \<open>Map<string, number>\<close> is an association list in insertion order: \<open>set\<close> on a
  present key replaces its value in place, on a new key appends it; \<open>get(k) ?? 0\<close>
  reads 0 for a missing key.
\<close>

definition getOr0 :: "(string \<times> number) list \<Rightarrow> string \<Rightarrow> number" where
  "getOr0 m k = (case map_of m k of None \<Rightarrow> 0 | Some v \<Rightarrow> v)"

text \<open>The aggregation loop, used for \<open>pendingByEditor\<close> and for \<open>releasedByEditor\<close>.\<close>

fun sumByEditor :: "(string \<times> number) list \<Rightarrow> Transaction list \<Rightarrow> (string \<times> number) list" where
  "sumByEditor m [] = m"
| "sumByEditor m (tx # txs) =
     (let current = getOr0 m (tx_userId tx)
      in sumByEditor (AList.update (tx_userId tx) (current + tx_amount tx) m) txs)"

definition findManyTx :: "string \<Rightarrow> TransactionType \<Rightarrow> db \<Rightarrow> Transaction list" where
  "findManyTx campaignId ty st =
     filter (\<lambda>tx. tx_campaignId tx = Some campaignId \<and> tx_type tx = ty) (transactions st)"

text \<open>
  The release loop over \<open>pendingByEditor\<close>. Beside the state it returns, the model
  returns the calls of \<open>releasePending\<close> it made: editor, amount and outcome. A failed
  call is caught, and the loop goes on with the state the call left.
\<close>

type_synonym releaseCall = "string \<times> number \<times> (error + Balance \<times> Transaction)"

fun releaseLoop ::
  "string \<Rightarrow> string \<Rightarrow> (string \<times> number) list \<Rightarrow> (string \<times> number) list \<Rightarrow> db
     \<Rightarrow> releaseCall list \<times> db" where
  "releaseLoop campaignId ttl releasedByEditor [] st = ([], st)"
| "releaseLoop campaignId ttl releasedByEditor ((editorId, pendingAmount) # rest) st =
     (let alreadyReleased = getOr0 releasedByEditor editorId;
          remaining = pendingAmount - alreadyReleased
      in if remaining > 0
         then
           (case releasePending editorId remaining campaignId
                   (''Campaign closure payout: '' @ ttl) st of
              (res, st') \<Rightarrow>
                (case releaseLoop campaignId ttl releasedByEditor rest st' of
                   (calls, st'') \<Rightarrow> ((editorId, remaining, res) # calls, st'')))
         else releaseLoop campaignId ttl releasedByEditor rest st)"

text \<open>Step 2 of \<open>handleCampaignEnded\<close>: release what is reserved and not yet paid out.\<close>

definition releasePendingStep :: "string \<Rightarrow> string \<Rightarrow> db \<Rightarrow> releaseCall list \<times> db" where
  "releasePendingStep campaignId ttl st =
     (let pendingTransactions = findManyTx campaignId RESERVATION st;
          pendingByEditor = sumByEditor [] pendingTransactions;
          existingPayouts = findManyTx campaignId PAYOUT st;
          releasedByEditor = sumByEditor [] existingPayouts
      in releaseLoop campaignId ttl releasedByEditor pendingByEditor st)"

text \<open>
  \<open>handleCampaignEnded\<close>. An error of a step is logged and thrown again; what the
  steps before it wrote stays written.
\<close>

definition handleCampaignEnded :: "string \<Rightarrow> CampaignClosureData \<Rightarrow> db \<Rightarrow> (error + unit) \<times> db" where
  "handleCampaignEnded campaignId campaignData st =
     (case (if enableLeaderboard campaignData \<or> hasLeaderboard campaignData
            then (case finalizeLeaderboard campaignId st of
                    (Inl err, st1) \<Rightarrow> (Some err, st1)
                  | (Inr _, st1) \<Rightarrow> (None, snd (distributePrizes campaignId st1)))
            else (None, st)) of
        (Some err, st1) \<Rightarrow> (Inl err, st1)
      | (None, st1) \<Rightarrow>
          (let st2 = snd (releasePendingStep campaignId (title campaignData) st1);
               remainingBudget = totalBudget campaignData - spentBudget campaignData
           in if remainingBudget > 0 \<and> isFunded campaignData
              then
                (case refundToCreator (createdBy campaignData) remainingBudget campaignId
                        (''Refund unused budget: '' @ title campaignData) st2 of
                   (Inl err, st3) \<Rightarrow> (Inl err, st3)
                 | (Inr _, st3) \<Rightarrow> (Inr (), st3))
              else (Inr (), st2)))"

section \<open>Invariant and example states\<close>

text \<open>The ledger invariant: no balance row holds a negative amount.\<close>

definition balancesNonneg :: "db \<Rightarrow> bool" where
  "balancesNonneg st = list_all (\<lambda>b. 0 \<le> available b \<and> 0 \<le> pending b) (balances st)"

text \<open>
  States for the concrete instances: an editor with 600 reserved for a campaign, the same
  ledger after a release of 100, and the empty storage.
\<close>

definition exampleDb :: db where
  "exampleDb =
     \<lparr>balances = [\<lparr>userId = ''editor1'', available = 50, pending = 600\<rparr>],
      transactions =
        [\<lparr>tx_userId = ''editor1'', tx_campaignId = Some ''camp1'', tx_amount = 600,
          tx_type = RESERVATION, tx_description = ''Payment reserved for clip clip1''\<rparr>],
      leaderboardEntries = [], prizeDistributions = []\<rparr>"

definition releasedDb :: db where
  "releasedDb =
     \<lparr>balances = [\<lparr>userId = ''editor1'', available = 150, pending = 500\<rparr>],
      transactions =
        [\<lparr>tx_userId = ''editor1'', tx_campaignId = Some ''camp1'', tx_amount = 600,
          tx_type = RESERVATION, tx_description = ''Payment reserved for clip clip1''\<rparr>,
         \<lparr>tx_userId = ''editor1'', tx_campaignId = Some ''camp1'', tx_amount = 100,
          tx_type = PAYOUT, tx_description = ''payout''\<rparr>],
      leaderboardEntries = [], prizeDistributions = []\<rparr>"

definition emptyDb :: db where
  "emptyDb = \<lparr>balances = [], transactions = [], leaderboardEntries = [], prizeDistributions = []\<rparr>"

section \<open>Leaderboard: ranks by id, example rows\<close>

text \<open>
  What the loop of \<open>finalizeLeaderboard\<close> computes, read off the list it walks:
  \<open>rankOf i es k\<close> is the rank given to the row with id \<open>k\<close>, if it is in \<open>es\<close>,
  and \<open>withRank\<close> stores such a rank in a row.
\<close>

fun rankOf :: "nat \<Rightarrow> LeaderboardEntry list \<Rightarrow> nat \<Rightarrow> int option" where
  "rankOf i [] k = None"
| "rankOf i (e # es) k = (if le_id e = k then Some (int i + 1) else rankOf (i + 1) es k)"

definition withRank :: "(nat \<Rightarrow> int option) \<Rightarrow> LeaderboardEntry \<Rightarrow> LeaderboardEntry" where
  "withRank m e = (case m (le_id e) of None \<Rightarrow> e | Some r \<Rightarrow> e\<lparr>le_rank := r\<rparr>)"

text \<open>Four rows of one campaign with scores 10, 30, 30 and 5, in this order in the table.\<close>

definition exampleEntry :: "nat \<Rightarrow> string \<Rightarrow> string \<Rightarrow> number \<Rightarrow> LeaderboardEntry" where
  "exampleEntry i editor submission score =
     \<lparr>le_id = i, le_campaignId = ''camp1'', le_editorId = editor, le_submissionId = submission,
      le_views = score, le_likes = 0, le_engagement = 0, le_score = score, le_rank = 0\<rparr>"

definition leaderboardDb :: db where
  "leaderboardDb =
     \<lparr>balances = [], transactions = [],
      leaderboardEntries =
        [exampleEntry 1 ''editorA'' ''clipA'' 10, exampleEntry 2 ''editorB'' ''clipB'' 30,
         exampleEntry 3 ''editorC'' ''clipC'' 30, exampleEntry 4 ''editorD'' ''clipD'' 5],
      prizeDistributions = []\<rparr>"

section \<open>Closure saga: remainders, example state after a closure\<close>




text \<open>The example ledger after the release step of the closure of \<open>camp1\<close>.\<close>

definition closedDb :: db where
  "closedDb =
     \<lparr>balances = [\<lparr>userId = ''editor1'', available = 650, pending = 0\<rparr>],
      transactions =
        [\<lparr>tx_userId = ''editor1'', tx_campaignId = Some ''camp1'', tx_amount = 600,
          tx_type = RESERVATION, tx_description = ''Payment reserved for clip clip1''\<rparr>,
         \<lparr>tx_userId = ''editor1'', tx_campaignId = Some ''camp1'', tx_amount = 600,
          tx_type = PAYOUT, tx_description = ''Campaign closure payout: Spring''\<rparr>],
      leaderboardEntries = [], prizeDistributions = []\<rparr>"

section \<open>Closure saga: example campaign\<close>

text \<open>
  A funded campaign without leaderboard, of budget 1000 with 400 spent, and the example
  ledger after its closure.
\<close>

definition closureData :: CampaignClosureData where
  "closureData =
     \<lparr>cd_campaignId = ''camp1'', createdBy = ''creator1'', title = ''Spring'',
      totalBudget = 1000, spentBudget = 400, isFunded = True,
      enableLeaderboard = False, hasLeaderboard = False\<rparr>"

definition refundedDb :: db where
  "refundedDb =
     \<lparr>balances = [\<lparr>userId = ''editor1'', available = 650, pending = 0\<rparr>,
                  \<lparr>userId = ''creator1'', available = 600, pending = 0\<rparr>],
      transactions =
        [\<lparr>tx_userId = ''editor1'', tx_campaignId = Some ''camp1'', tx_amount = 600,
          tx_type = RESERVATION, tx_description = ''Payment reserved for clip clip1''\<rparr>,
         \<lparr>tx_userId = ''editor1'', tx_campaignId = Some ''camp1'', tx_amount = 600,
          tx_type = PAYOUT, tx_description = ''Campaign closure payout: Spring''\<rparr>,
         \<lparr>tx_userId = ''creator1'', tx_campaignId = Some ''camp1'', tx_amount = 600,
          tx_type = REFUND, tx_description = ''Refund unused budget: Spring''\<rparr>],
      leaderboardEntries = [], prizeDistributions = []\<rparr>"

section \<open>Leaderboard and prizes: example clips and prize configuration\<close>

text \<open>
  Four approved clips with 10, 30, 30 and 5 views, and the example leaderboard with prizes
  for the positions 2, 1 and 7.
\<close>

definition exampleClip :: "string \<Rightarrow> string \<Rightarrow> number \<Rightarrow> ClipData" where
  "exampleClip cid editor v =
     \<lparr>clip_id = cid, clip_userId = editor, clip_campaignId = ''camp1'', clip_views = v,
      clip_likes = 0, clip_engagement = 0, clip_status = ''APPROVED''\<rparr>"

definition exampleClips :: "ClipData list" where
  "exampleClips =
     [exampleClip ''clipA'' ''editorA'' 10, exampleClip ''clipB'' ''editorB'' 30,
      exampleClip ''clipC'' ''editorC'' 30, exampleClip ''clipD'' ''editorD'' 5]"

definition prizeDb :: db where
  "prizeDb = leaderboardDb\<lparr>prizeDistributions :=
     [\<lparr>pd_campaignId = ''camp1'', pd_position = 2, pd_reward = 50, pd_label = ''Silver''\<rparr>,
      \<lparr>pd_campaignId = ''camp1'', pd_position = 1, pd_reward = 100, pd_label = ''Gold''\<rparr>,
      \<lparr>pd_campaignId = ''camp1'', pd_position = 7, pd_reward = 10, pd_label = ''Seventh''\<rparr>]\<rparr>"

section \<open>Lemmas on the balance table\<close>

lemma find_update_first_same:
  "find (\<lambda>b. userId b = u) bs = Some cur \<Longrightarrow> userId (f cur) = u
     \<Longrightarrow> find (\<lambda>b. userId b = u) (update_first u f bs) = Some (f cur)"
  by (induction bs) (auto split: if_splits)

lemma find_update_first_other:
  "v \<noteq> u \<Longrightarrow> (\<And>b. userId (f b) = userId b)
     \<Longrightarrow> find (\<lambda>b. userId b = v) (update_first u f bs) = find (\<lambda>b. userId b = v) bs"
  by (induction bs) auto

lemma list_all_update_first:
  "find (\<lambda>b. userId b = u) bs = Some cur \<Longrightarrow> list_all P bs \<Longrightarrow> P (f cur)
     \<Longrightarrow> list_all P (update_first u f bs)"
  by (induction bs) (auto split: if_splits)

lemma find_append_new:
  "find P bs = None \<Longrightarrow> find P (bs @ [b]) = (if P b then Some b else None)"
  by (induction bs) (auto split: if_splits)

lemma find_append_other:
  "\<not> P b \<Longrightarrow> find P (bs @ [b]) = find P bs"
  by (induction bs) auto

lemma findUnique_Some_nonneg:
  "balance_findUnique u bs = Some cur \<Longrightarrow> list_all P bs \<Longrightarrow> P cur"
  unfolding balance_findUnique_def by (induction bs) (auto split: if_splits)

section \<open>Properties of the balance service\<close>

text \<open>
  C3: when the balance of user \<open>u\<close> exists with at least \<open>a\<close> pending and \<open>a\<close> is
  positive, \<open>releasePending\<close> succeeds: pending goes down by exactly \<open>a\<close>, available goes
  up by exactly \<open>a\<close>, their sum stays the same, no other user's balance changes, and exactly
  one PAYOUT transaction of amount \<open>a\<close> is appended.
\<close>

theorem releasePending_moves_pending_to_available:
  assumes a: "0 < a"
    and cur: "balance_findUnique u (balances st) = Some cur"
    and p: "a \<le> pending cur"
  shows "(let bal = cur\<lparr>available := available cur + a, pending := pending cur - a\<rparr>;
              tx = \<lparr>tx_userId = u, tx_campaignId = Some c, tx_amount = a,
                    tx_type = PAYOUT, tx_description = d\<rparr>;
              st' = snd (releasePending u a c d st)
          in fst (releasePending u a c d st) = Inr (bal, tx)
           \<and> balance_findUnique u (balances st') = Some bal
           \<and> pending bal = pending cur - a
           \<and> available bal = available cur + a
           \<and> available bal + pending bal = available cur + pending cur
           \<and> (\<forall>v. v \<noteq> u \<longrightarrow>
                  balance_findUnique v (balances st') = balance_findUnique v (balances st))
           \<and> transactions st' = transactions st @ [tx])"
proof -
  let ?f = "\<lambda>b. b\<lparr>available := available b + a, pending := pending b - a\<rparr>"
  from cur have uid: "userId cur = u"
    by (auto simp: balance_findUnique_def dest: find_Some_iff[THEN iffD1])
  have same: "balance_findUnique u (update_first u ?f (balances st)) = Some (?f cur)"
    using cur uid unfolding balance_findUnique_def
    by (intro find_update_first_same) simp_all
  have other: "\<And>v. v \<noteq> u \<Longrightarrow>
      balance_findUnique v (update_first u ?f (balances st)) = balance_findUnique v (balances st)"
    unfolding balance_findUnique_def by (intro find_update_first_other) simp_all
  show ?thesis
    using a cur p uid same other
    by (simp add: releasePending_def balance_update_def Let_def)
qed

theorem releasePending_moves_pending_to_available_witness:
  "releasePending ''editor1'' 100 ''camp1'' ''payout'' exampleDb =
     (Inr (\<lparr>userId = ''editor1'', available = 150, pending = 500\<rparr>,
           \<lparr>tx_userId = ''editor1'', tx_campaignId = Some ''camp1'', tx_amount = 100,
            tx_type = PAYOUT, tx_description = ''payout''\<rparr>),
      releasedDb)"
proof -
  let ?cur = "\<lparr>userId = ''editor1'', available = 50, pending = 600\<rparr>"
  have h1: "(0::rat) < 100" by simp
  have h2: "balance_findUnique ''editor1'' (balances exampleDb) = Some ?cur"
    by (simp add: balance_findUnique_def exampleDb_def)
  have h3: "100 \<le> pending ?cur" by simp
  have st: "snd (releasePending ''editor1'' 100 ''camp1'' ''payout'' exampleDb) = releasedDb"
    by (simp add: releasePending_def balance_findUnique_def balance_update_def
        exampleDb_def releasedDb_def Let_def)
  show ?thesis
    using releasePending_moves_pending_to_available[OF h1 h2 h3, of "''camp1''" "''payout''"] st
    by (simp add: Let_def prod_eq_iff)
qed

text \<open>
  C4: for a positive amount, \<open>releasePending\<close> fails with NotFound when the user has no
  balance row, and with the bad request "Insufficient pending balance" when pending is below
  the amount; in both cases the state returned is the state given, so no balance changes and
  no transaction is appended.
\<close>

theorem releasePending_fails_closed:
  assumes a: "0 < a"
  shows "(balance_findUnique u (balances st) = None \<longrightarrow>
            releasePending u a c d st = (Inl (NotFound (''Balance not found for user '' @ u)), st))
       \<and> (\<forall>cur. balance_findUnique u (balances st) = Some cur \<and> pending cur < a \<longrightarrow>
            releasePending u a c d st = (Inl (BadRequest ''Insufficient pending balance''), st))"
  using a by (simp add: releasePending_def)

theorem releasePending_fails_closed_witness:
  "releasePending ''nobody'' 10 ''camp1'' ''payout'' exampleDb =
     (Inl (NotFound ''Balance not found for user nobody''), exampleDb)
   \<and> releasePending ''editor1'' 601 ''camp1'' ''payout'' exampleDb =
     (Inl (BadRequest ''Insufficient pending balance''), exampleDb)"
proof -
  let ?cur = "\<lparr>userId = ''editor1'', available = 50, pending = 600\<rparr>"
  have n: "balance_findUnique ''nobody'' (balances exampleDb) = None"
    by (simp add: balance_findUnique_def exampleDb_def)
  have s: "balance_findUnique ''editor1'' (balances exampleDb) = Some ?cur \<and> pending ?cur < 601"
    by (simp add: balance_findUnique_def exampleDb_def)
  have p1: "(0::rat) < 10" and p2: "(0::rat) < 601" by simp_all
  show ?thesis
    using releasePending_fails_closed[OF p1, of "''nobody''" exampleDb "''camp1''" "''payout''"]
      releasePending_fails_closed[OF p2, of "''editor1''" exampleDb "''camp1''" "''payout''"]
      n s by simp
qed

text \<open>
  C9: for an amount that is zero or negative, \<open>releasePending\<close> fails with the bad request
  "Amount must be positive" whatever the storage holds, also when the user has no balance row,
  and returns the state unchanged.
\<close>

theorem releasePending_rejects_nonpositive:
  "a \<le> 0 \<Longrightarrow> releasePending u a c d st = (Inl (BadRequest ''Amount must be positive''), st)"
  by (simp add: releasePending_def)

theorem releasePending_rejects_nonpositive_witness:
  "releasePending ''nobody'' 0 ''camp1'' ''payout'' emptyDb =
     (Inl (BadRequest ''Amount must be positive''), emptyDb)
   \<and> releasePending ''editor1'' (- 5) ''camp1'' ''payout'' exampleDb =
     (Inl (BadRequest ''Amount must be positive''), exampleDb)"
proof -
  have h0: "(0::rat) \<le> 0" and h5: "(- 5::rat) \<le> 0" by simp_all
  show ?thesis
    using releasePending_rejects_nonpositive[OF h0, of "''nobody''" "''camp1''" "''payout''" emptyDb]
      releasePending_rejects_nonpositive[OF h5, of "''editor1''" "''camp1''" "''payout''" exampleDb]
    by simp
qed

text \<open>
  C5: for a positive amount \<open>a\<close>, \<open>reserveFunds\<close> succeeds; the balance that
  \<open>getBalance\<close> reads afterwards has pending increased by exactly \<open>a\<close> and available
  unchanged against the balance \<open>getBalance\<close> reads before (a zeroed one when no row
  exists), no other user's balance changes, and exactly one RESERVATION transaction of amount
  \<open>a\<close> is appended.
\<close>

theorem reserveFunds_adds_pending:
  assumes a: "0 < a"
  shows "(let old = fst (getBalance u st);
              bal = old\<lparr>pending := pending old + a\<rparr>;
              tx = \<lparr>tx_userId = u, tx_campaignId = Some c, tx_amount = a,
                    tx_type = RESERVATION, tx_description = d\<rparr>;
              st' = snd (reserveFunds u a c d st)
          in fst (reserveFunds u a c d st) = Inr (bal, tx)
           \<and> fst (getBalance u st') = bal
           \<and> snd (getBalance u st') = st'
           \<and> pending bal = pending old + a
           \<and> available bal = available old
           \<and> (balance_findUnique u (balances st) = None \<longrightarrow> available bal = 0 \<and> pending bal = a)
           \<and> (\<forall>v. v \<noteq> u \<longrightarrow>
                  balance_findUnique v (balances st') = balance_findUnique v (balances st))
           \<and> transactions st' = transactions st @ [tx])"
proof (cases "balance_findUnique u (balances st)")
  case None
  let ?z = "\<lparr>userId = u, available = 0, pending = 0\<rparr>"
  let ?f = "\<lambda>b. b\<lparr>pending := pending b + a\<rparr>"
  have f0: "balance_findUnique u (balances st @ [?z]) = Some ?z"
    using None unfolding balance_findUnique_def by (simp add: find_append_new)
  have same: "balance_findUnique u (update_first u ?f (balances st @ [?z])) = Some (?f ?z)"
    using f0 unfolding balance_findUnique_def by (intro find_update_first_same) simp_all
  have other: "\<And>v. v \<noteq> u \<Longrightarrow>
      balance_findUnique v (update_first u ?f (balances st @ [?z])) = balance_findUnique v (balances st)"
    unfolding balance_findUnique_def
    by (subst find_update_first_other) (simp_all add: find_append_other)
  show ?thesis
    using a None f0 same other
    by (simp add: reserveFunds_def balance_update_def balance_create_def getBalance_def Let_def)
next
  case (Some cur)
  let ?f = "\<lambda>b. b\<lparr>pending := pending b + a\<rparr>"
  from Some have uid: "userId cur = u"
    by (auto simp: balance_findUnique_def dest: find_Some_iff[THEN iffD1])
  have same: "balance_findUnique u (update_first u ?f (balances st)) = Some (?f cur)"
    using Some uid unfolding balance_findUnique_def
    by (intro find_update_first_same) simp_all
  have other: "\<And>v. v \<noteq> u \<Longrightarrow>
      balance_findUnique v (update_first u ?f (balances st)) = balance_findUnique v (balances st)"
    unfolding balance_findUnique_def by (intro find_update_first_other) simp_all
  show ?thesis
    using a Some same other
    by (simp add: reserveFunds_def balance_update_def balance_create_def getBalance_def Let_def)
qed

theorem reserveFunds_adds_pending_witness:
  "fst (reserveFunds ''editor2'' 40 ''camp1'' ''r'' exampleDb) =
     Inr (\<lparr>userId = ''editor2'', available = 0, pending = 40\<rparr>,
          \<lparr>tx_userId = ''editor2'', tx_campaignId = Some ''camp1'', tx_amount = 40,
           tx_type = RESERVATION, tx_description = ''r''\<rparr>)
   \<and> fst (getBalance ''editor2'' (snd (reserveFunds ''editor2'' 40 ''camp1'' ''r'' exampleDb))) =
       \<lparr>userId = ''editor2'', available = 0, pending = 40\<rparr>"
proof -
  have h: "(0::rat) < 40" by simp
  have g: "fst (getBalance ''editor2'' exampleDb) = \<lparr>userId = ''editor2'', available = 0, pending = 0\<rparr>"
    by (simp add: getBalance_def balance_findUnique_def balance_create_def exampleDb_def)
  show ?thesis
    using reserveFunds_adds_pending[OF h, of "''editor2''" exampleDb "''camp1''" "''r''"] g
    by (simp add: Let_def)
qed

lemma nonneg_upsert:
  assumes "list_all (\<lambda>b. 0 \<le> available b \<and> 0 \<le> pending b) bs" and "0 < a"
  shows "list_all (\<lambda>b. 0 \<le> available b \<and> 0 \<le> pending b)
           (snd (balance_upsert u \<lparr>userId = u, available = a, pending = 0\<rparr>
                   (\<lambda>b. b\<lparr>available := available b + a\<rparr>) bs))"
proof (cases "balance_findUnique u bs")
  case None
  with assms show ?thesis
    by (simp add: balance_upsert_def balance_update_def balance_create_def)
next
  case (Some cur)
  have "0 \<le> available cur \<and> 0 \<le> pending cur"
    using findUnique_Some_nonneg[OF Some assms(1)] .
  with assms Some show ?thesis
    by (simp add: balance_upsert_def balance_update_def balance_findUnique_def
        list_all_update_first[where cur = cur])
qed

lemma nonneg_addFunds: "balancesNonneg st \<Longrightarrow> balancesNonneg (snd (addFunds u a c d st))"
  using nonneg_upsert[of "balances st" a u]
  by (auto simp: addFunds_def balancesNonneg_def Let_def split: prod.splits)

lemma nonneg_refundToCreator:
  "balancesNonneg st \<Longrightarrow> balancesNonneg (snd (refundToCreator u a c d st))"
  using nonneg_upsert[of "balances st" a u]
  by (auto simp: refundToCreator_def balancesNonneg_def Let_def split: prod.splits)

lemma nonneg_getBalance: "balancesNonneg st \<Longrightarrow> balancesNonneg (snd (getBalance u st))"
  by (simp add: getBalance_def balancesNonneg_def balance_create_def split: option.splits)

lemma nonneg_releasePending:
  assumes "balancesNonneg st"
  shows "balancesNonneg (snd (releasePending u a c d st))"
proof (cases "balance_findUnique u (balances st)")
  case None
  with assms show ?thesis by (simp add: releasePending_def)
next
  case (Some cur)
  have "0 \<le> available cur \<and> 0 \<le> pending cur"
    using findUnique_Some_nonneg[OF Some] assms by (simp add: balancesNonneg_def)
  with assms Some show ?thesis
    by (simp add: releasePending_def balance_update_def balance_findUnique_def Let_def
        balancesNonneg_def list_all_update_first[where cur = cur])
qed

lemma nonneg_reserveFunds:
  assumes "balancesNonneg st"
  shows "balancesNonneg (snd (reserveFunds u a c d st))"
proof (cases "balance_findUnique u (balances st)")
  case None
  let ?z = "\<lparr>userId = u, available = 0, pending = 0\<rparr>"
  have "find (\<lambda>b. userId b = u) (balances st @ [?z]) = Some ?z"
    using None unfolding balance_findUnique_def by (simp add: find_append_new)
  with assms None show ?thesis
    by (simp add: reserveFunds_def balance_update_def balance_findUnique_def Let_def
        balance_create_def balancesNonneg_def list_all_update_first[where cur = ?z])
next
  case (Some cur)
  have "0 \<le> available cur \<and> 0 \<le> pending cur"
    using findUnique_Some_nonneg[OF Some] assms by (simp add: balancesNonneg_def)
  with assms Some show ?thesis
    by (simp add: reserveFunds_def balance_update_def balance_findUnique_def Let_def
        balancesNonneg_def list_all_update_first[where cur = cur])
qed

text \<open>
  C8: if every balance row has available and pending at least 0, the same holds in the
  state left by \<open>addFunds\<close>, \<open>reserveFunds\<close>, \<open>releasePending\<close>, \<open>refundToCreator\<close>
  and \<open>getBalance\<close>, for all arguments, whether the operation succeeds or fails.
\<close>

theorem ledger_operations_keep_balances_nonnegative:
  assumes "balancesNonneg st"
  shows "balancesNonneg (snd (addFunds u a oc od st))
       \<and> balancesNonneg (snd (reserveFunds u a c d st))
       \<and> balancesNonneg (snd (releasePending u a c d st))
       \<and> balancesNonneg (snd (refundToCreator u a c d st))
       \<and> balancesNonneg (snd (getBalance u st))"
  using assms
  by (simp add: nonneg_addFunds nonneg_reserveFunds nonneg_releasePending
      nonneg_refundToCreator nonneg_getBalance)

theorem ledger_operations_keep_balances_nonnegative_witness:
  "balancesNonneg exampleDb
   \<and> balancesNonneg (snd (addFunds ''editor1'' 25 None None exampleDb))
   \<and> balancesNonneg (snd (reserveFunds ''editor1'' 25 ''camp1'' ''r'' exampleDb))
   \<and> balancesNonneg (snd (releasePending ''editor1'' 25 ''camp1'' ''r'' exampleDb))
   \<and> balancesNonneg (snd (refundToCreator ''editor1'' 25 ''camp1'' ''r'' exampleDb))
   \<and> balancesNonneg (snd (getBalance ''editor1'' exampleDb))"
proof -
  have h: "balancesNonneg exampleDb"
    by (simp add: balancesNonneg_def exampleDb_def)
  show ?thesis
    using h ledger_operations_keep_balances_nonnegative[OF h, of "''editor1''" 25 None None "''camp1''" "''r''"]
    by simp
qed

text \<open>
  C10: the handler of \<open>campaign.funded\<close> appends exactly one FUNDING transaction for the
  funding user and leaves the balance table as it was: every user's balance reads the same
  before and after.
\<close>

theorem campaign_funded_appends_one_transaction:
  "transactions (handleCampaignFunded c amt fundedBy st) =
     transactions st @ [\<lparr>tx_userId = fundedBy, tx_campaignId = Some c, tx_amount = amt,
                         tx_type = FUNDING, tx_description = ''Campaign funded: '' @ c\<rparr>]
   \<and> balances (handleCampaignFunded c amt fundedBy st) = balances st
   \<and> (\<forall>u. fst (getBalance u (handleCampaignFunded c amt fundedBy st)) = fst (getBalance u st))"
  by (simp add: handleCampaignFunded_def getBalance_def balance_create_def split: option.splits)

section \<open>Properties of the payout calculation\<close>















section \<open>Properties of the leaderboard\<close>

lemma entry_update_first_distinct:
  "distinct (map le_id tbl) \<Longrightarrow>
   entry_update_first (\<lambda>e. le_id e = k) f tbl = map (\<lambda>e. if le_id e = k then f e else e) tbl"
proof (induction tbl)
  case Nil
  then show ?case by simp
next
  case (Cons x xs)
  have "\<forall>y\<in>set xs. le_id y \<noteq> le_id x"
    using Cons.prems by (fastforce simp: image_iff)
  then have "le_id x = k \<Longrightarrow> map (\<lambda>e. if le_id e = k then f e else e) xs = xs"
    by (intro map_idI) auto
  with Cons show ?case by simp
qed

lemma find_id_in_table:
  "k \<in> le_id ` set tbl \<Longrightarrow> \<exists>e. find (\<lambda>e. le_id e = k) tbl = Some e"
  by (induction tbl) auto

lemma rankOf_None: "k \<notin> le_id ` set es \<Longrightarrow> rankOf i es k = None"
  by (induction es arbitrary: i) auto

lemma finalizeLoop_ranks:
  "distinct (map le_id (leaderboardEntries st)) \<Longrightarrow> distinct (map le_id es)
   \<Longrightarrow> le_id ` set es \<subseteq> le_id ` set (leaderboardEntries st)
   \<Longrightarrow> finalizeLoop i es st =
        (None, st\<lparr>leaderboardEntries := map (withRank (rankOf i es)) (leaderboardEntries st)\<rparr>)"
proof (induction es arbitrary: i st)
  case Nil
  then show ?case by (simp add: withRank_def)
next
  case (Cons e es)
  let ?tbl = "leaderboardEntries st"
  let ?f = "\<lambda>x. x\<lparr>le_rank := int i + 1\<rparr>"
  let ?tbl' = "map (\<lambda>x. if le_id x = le_id e then ?f x else x) ?tbl"
  from Cons.prems(3) obtain x where x: "find (\<lambda>x. le_id x = le_id e) ?tbl = Some x"
    using find_id_in_table[of "le_id e" ?tbl] by auto
  have upd: "entry_update (\<lambda>x. le_id x = le_id e) ?f ?tbl = Some (?f x, ?tbl')"
    using x Cons.prems(1) by (simp add: entry_update_def entry_update_first_distinct)
  have ids: "map le_id ?tbl' = map le_id ?tbl"
    by (auto simp: o_def)
  have d0: "distinct (map le_id ?tbl')"
    using Cons.prems(1) by (simp only: ids)
  have d': "distinct (map le_id (leaderboardEntries (st\<lparr>leaderboardEntries := ?tbl'\<rparr>)))"
    using d0 by simp
  have s': "le_id ` set es \<subseteq> le_id ` set (leaderboardEntries (st\<lparr>leaderboardEntries := ?tbl'\<rparr>))"
  proof -
    have "le_id ` set ?tbl' = le_id ` set ?tbl"
      using ids by (metis set_map)
    with Cons.prems(3) show ?thesis by auto
  qed
  have IH: "finalizeLoop (i + 1) es (st\<lparr>leaderboardEntries := ?tbl'\<rparr>) =
      (None, st\<lparr>leaderboardEntries := map (withRank (rankOf (i + 1) es)) ?tbl'\<rparr>)"
    using Cons.IH[OF d' _ s', of "i + 1"] Cons.prems(2) by simp
  have e_notin: "le_id e \<notin> le_id ` set es"
    using Cons.prems(2) by auto
  have eq: "map (withRank (rankOf (i + 1) es)) ?tbl' = map (withRank (rankOf i (e # es))) ?tbl"
    using rankOf_None[OF e_notin, of "i + 1"]
    by (auto simp: withRank_def split: option.splits)
  have step: "finalizeLoop i (e # es) st = finalizeLoop (i + 1) es (st\<lparr>leaderboardEntries := ?tbl'\<rparr>)"
    using upd by simp
  show ?case by (simp only: step IH eq)
qed

lemma sorted_campaign_ids:
  assumes "distinct (map le_id tbl)"
  shows "distinct (map le_id (orderByDesc le_score (filter P tbl)))"
    and "le_id ` set (orderByDesc le_score (filter P tbl)) \<subseteq> le_id ` set tbl"
proof -
  have "distinct (map le_id (filter P tbl))"
    using assms by (simp add: distinct_map_filter)
  then show "distinct (map le_id (orderByDesc le_score (filter P tbl)))"
    unfolding orderByDesc_def by (simp add: distinct_map)
  show "le_id ` set (orderByDesc le_score (filter P tbl)) \<subseteq> le_id ` set tbl"
    unfolding orderByDesc_def by auto
qed

lemma finalizeLeaderboard_result:
  assumes "distinct (map le_id (leaderboardEntries st))"
  shows "finalizeLeaderboard c st =
     (let entries = orderByDesc le_score (filter (\<lambda>e. le_campaignId e = c) (leaderboardEntries st))
      in (Inr entries,
          st\<lparr>leaderboardEntries := map (withRank (rankOf 0 entries)) (leaderboardEntries st)\<rparr>))"
proof -
  let ?P = "\<lambda>e. le_campaignId e = c"
  note a = sorted_campaign_ids(1)[OF assms, of ?P]
  note b = sorted_campaign_ids(2)[OF assms, of ?P]
  show ?thesis
    using finalizeLoop_ranks[OF assms a b, of 0]
    by (simp add: finalizeLeaderboard_def Let_def)
qed

lemma withRank_campaign: "le_campaignId (withRank m e) = le_campaignId e"
  by (simp add: withRank_def split: option.splits)

lemma filter_map_withRank:
  "filter (\<lambda>e. le_campaignId e = c) (map (withRank m) tbl) =
   map (withRank m) (filter (\<lambda>e. le_campaignId e = c) tbl)"
  by (induction tbl) (simp_all add: withRank_campaign)

text \<open>
  Whatever the order of the list the loop walks, the ranks it gives are the positions
  \<open>i + 1\<close>, \<open>i + 2\<close>, ... along that list: two rows of the list never get one rank.
\<close>

lemma rankOf_positions:
  "distinct (map le_id es) \<Longrightarrow>
     map (rankOf i es) (map le_id es) = map (\<lambda>k. Some (int k + 1)) [i..<i + length es]"
proof (induction es arbitrary: i)
  case Nil
  then show ?case by simp
next
  case (Cons e es)
  have "\<forall>x\<in>set es. le_id x \<noteq> le_id e"
    using Cons.prems by (fastforce simp: image_iff)
  then have tl: "map (rankOf i (e # es)) (map le_id es) = map (rankOf (i + 1) es) (map le_id es)"
    by (auto simp: o_def)
  have up: "[i..<i + length (e # es)] = i # [i + 1..<i + 1 + length es]"
    using upt_conv_Cons[of i "i + length (e # es)"] by (simp del: upt_Suc)
  have dist: "distinct (map le_id es)"
    using Cons.prems by simp
  note ih = Cons.IH[OF dist, of "i + 1"]
  have "map (rankOf i (e # es)) (map le_id (e # es)) =
      Some (int i + 1) # map (rankOf i (e # es)) (map le_id es)"
    by (simp only: list.map rankOf.simps simp_thms if_True)
  also have "\<dots> = Some (int i + 1) # map (\<lambda>k. Some (int k + 1)) [i + 1..<i + 1 + length es]"
    by (simp only: tl ih)
  also have "\<dots> = map (\<lambda>k. Some (int k + 1)) (i # [i + 1..<i + 1 + length es])"
    by (simp only: list.map)
  also have "\<dots> = map (\<lambda>k. Some (int k + 1)) [i..<i + length (e # es)]"
    by (simp only: up)
  finally show ?case .
qed

text \<open>
  C7, as the code has it: for a campaign whose rows have scores 10, 30, 30 and 5 in the order
  of the table, \<open>finalizeLeaderboard\<close> walks them by descending score, ties in table order,
  and gives the rank \<open>i + 1\<close> to the row at index \<open>i\<close>. The ranks, read in the order of the
  table, are 3, 1, 2 and 4: the two rows with score 30 get the ranks 1 and 2, not the same rank.
\<close>

theorem finalize_ranks_by_position:
  assumes d: "distinct (map le_id (leaderboardEntries st))"
    and sc: "campaignScores c st = [10, 30, 30, 5]"
  shows "campaignRanks c (snd (finalizeLeaderboard c st)) = [3, 1, 2, 4]
       \<and> (\<exists>es. fst (finalizeLeaderboard c st) = Inr es \<and> map le_score es = [30, 30, 10, 5])"
proof -
  let ?rows = "filter (\<lambda>e. le_campaignId e = c) (leaderboardEntries st)"
  from sc obtain e1 e2 e3 e4 where rows: "?rows = [e1, e2, e3, e4]"
    and s: "le_score e1 = 10" "le_score e2 = 30" "le_score e3 = 30" "le_score e4 = 5"
    unfolding campaignScores_def by (auto simp: map_eq_Cons_conv)
  have "distinct (map le_id ?rows)"
    using d by (simp add: distinct_map_filter)
  with rows have ne: "le_id e1 \<noteq> le_id e2" "le_id e1 \<noteq> le_id e3" "le_id e1 \<noteq> le_id e4"
    "le_id e2 \<noteq> le_id e3" "le_id e2 \<noteq> le_id e4" "le_id e3 \<noteq> le_id e4"
    by auto
  have sorted: "orderByDesc le_score ?rows = [e2, e3, e1, e4]"
    using rows s by (simp add: orderByDesc_def)
  show ?thesis
    using finalizeLeaderboard_result[OF d, of c] sorted rows s ne
    by (simp add: Let_def campaignRanks_def filter_map_withRank withRank_def)
qed

theorem finalize_ranks_by_position_witness:
  "campaignScores ''camp1'' leaderboardDb = [10, 30, 30, 5]
   \<and> campaignRanks ''camp1'' (snd (finalizeLeaderboard ''camp1'' leaderboardDb)) = [3, 1, 2, 4]"
proof -
  have d: "distinct (map le_id (leaderboardEntries leaderboardDb))"
    by (simp add: leaderboardDb_def exampleEntry_def)
  have sc: "campaignScores ''camp1'' leaderboardDb = [10, 30, 30, 5]"
    by (simp add: campaignScores_def leaderboardDb_def exampleEntry_def)
  show ?thesis
    using finalize_ranks_by_position[OF d sc] sc by simp
qed

text \<open>
  C7 as stated asks for the ranks 3, 1, 1 and 4, the tied rows sharing rank 1. On the example
  rows the code does not produce them.
\<close>

theorem tied_scores_get_different_ranks:
  "campaignScores ''camp1'' leaderboardDb = [10, 30, 30, 5]
   \<and> campaignRanks ''camp1'' (snd (finalizeLeaderboard ''camp1'' leaderboardDb)) \<noteq> [3, 1, 1, 4]"
  by (simp add: campaignScores_def campaignRanks_def leaderboardDb_def exampleEntry_def
      finalizeLeaderboard_def orderByDesc_def entry_update_def Let_def)

section \<open>Properties of the campaign closure saga\<close>












lemma first_run_example:
  "releasePendingStep ''camp1'' ''Spring'' exampleDb =
     ([(''editor1'', 600,
        Inr (\<lparr>userId = ''editor1'', available = 650, pending = 0\<rparr>,
             \<lparr>tx_userId = ''editor1'', tx_campaignId = Some ''camp1'', tx_amount = 600,
              tx_type = PAYOUT, tx_description = ''Campaign closure payout: Spring''\<rparr>))],
      closedDb)"
  by (simp add: releasePendingStep_def findManyTx_def exampleDb_def closedDb_def getOr0_def
      releasePending_def balance_findUnique_def balance_update_def Let_def)



section \<open>The closure saga end to end\<close>

lemma sumByEditor_same_editor:
  "\<forall>t\<in>set txs. tx_userId t = e \<Longrightarrow>
     sumByEditor [(e, v)] txs = [(e, v + sum_list (map tx_amount txs))]"
  by (induction txs arbitrary: v) (simp_all add: getOr0_def Let_def add.assoc)

lemma sumByEditor_one_editor:
  assumes "txs \<noteq> []" and "\<forall>t\<in>set txs. tx_userId t = e"
  shows "sumByEditor [] txs = [(e, sum_list (map tx_amount txs))]"
proof (cases txs)
  case Nil
  with assms show ?thesis by simp
next
  case (Cons t ts)
  with assms(2) have "tx_userId t = e" and "\<forall>t\<in>set ts. tx_userId t = e" by simp_all
  with Cons show ?thesis
    using sumByEditor_same_editor[of ts e "tx_amount t"]
    by (simp add: getOr0_def Let_def)
qed

lemma findUnique_userId: "balance_findUnique u bs = Some cur \<Longrightarrow> userId cur = u"
  by (auto simp: balance_findUnique_def dest: find_Some_iff[THEN iffD1])

lemma releasePending_success:
  assumes "0 < a" and "balance_findUnique u (balances st) = Some cur" and "a \<le> pending cur"
  shows "releasePending u a c d st =
     (Inr (cur\<lparr>available := available cur + a, pending := pending cur - a\<rparr>,
           \<lparr>tx_userId = u, tx_campaignId = Some c, tx_amount = a, tx_type = PAYOUT,
            tx_description = d\<rparr>),
      st\<lparr>balances := update_first u
             (\<lambda>b. b\<lparr>available := available b + a, pending := pending b - a\<rparr>) (balances st),
         transactions := transactions st @
           [\<lparr>tx_userId = u, tx_campaignId = Some c, tx_amount = a, tx_type = PAYOUT,
             tx_description = d\<rparr>]\<rparr>)"
  using assms by (simp add: releasePending_def balance_update_def Let_def)

lemma refundToCreator_effect:
  assumes a: "0 < a"
  shows "fst (refundToCreator u a c d st) =
           Inr ((fst (getBalance u st))\<lparr>available := available (fst (getBalance u st)) + a\<rparr>,
                \<lparr>tx_userId = u, tx_campaignId = Some c, tx_amount = a, tx_type = REFUND,
                 tx_description = d\<rparr>)"
    and "balance_findUnique u (balances (snd (refundToCreator u a c d st))) =
           Some ((fst (getBalance u st))\<lparr>available := available (fst (getBalance u st)) + a\<rparr>)"
    and "v \<noteq> u \<Longrightarrow> balance_findUnique v (balances (snd (refundToCreator u a c d st))) =
           balance_findUnique v (balances st)"
    and "transactions (snd (refundToCreator u a c d st)) = transactions st @
           [\<lparr>tx_userId = u, tx_campaignId = Some c, tx_amount = a, tx_type = REFUND,
             tx_description = d\<rparr>]"
proof -
  let ?f = "\<lambda>b. b\<lparr>available := available b + a\<rparr>"
  show "fst (refundToCreator u a c d st) =
           Inr ((fst (getBalance u st))\<lparr>available := available (fst (getBalance u st)) + a\<rparr>,
                \<lparr>tx_userId = u, tx_campaignId = Some c, tx_amount = a, tx_type = REFUND,
                 tx_description = d\<rparr>)"
    using a
    by (cases "balance_findUnique u (balances st)")
      (simp_all add: refundToCreator_def balance_upsert_def balance_update_def
        balance_create_def getBalance_def Let_def)
  show "transactions (snd (refundToCreator u a c d st)) = transactions st @
           [\<lparr>tx_userId = u, tx_campaignId = Some c, tx_amount = a, tx_type = REFUND,
             tx_description = d\<rparr>]"
    using a
    by (cases "balance_findUnique u (balances st)")
      (simp_all add: refundToCreator_def balance_upsert_def balance_update_def
        balance_create_def Let_def)
  show "balance_findUnique u (balances (snd (refundToCreator u a c d st))) =
           Some ((fst (getBalance u st))\<lparr>available := available (fst (getBalance u st)) + a\<rparr>)"
  proof (cases "balance_findUnique u (balances st)")
    case None
    then show ?thesis
      using a
      by (simp add: refundToCreator_def balance_upsert_def balance_update_def
          balance_create_def getBalance_def Let_def)
        (simp add: balance_findUnique_def find_append_new)
  next
    case (Some cur)
    have "balance_findUnique u (update_first u ?f (balances st)) = Some (?f cur)"
      using Some findUnique_userId[OF Some] unfolding balance_findUnique_def
      by (intro find_update_first_same) simp_all
    with Some a show ?thesis
      by (simp add: refundToCreator_def balance_upsert_def balance_update_def
          getBalance_def Let_def)
  qed
  show "v \<noteq> u \<Longrightarrow> balance_findUnique v (balances (snd (refundToCreator u a c d st))) =
           balance_findUnique v (balances st)"
  proof (cases "balance_findUnique u (balances st)")
    case None
    assume "v \<noteq> u"
    with None a show ?thesis
      by (simp add: refundToCreator_def balance_upsert_def balance_update_def
          balance_create_def Let_def)
        (simp add: balance_findUnique_def find_append_other)
  next
    case (Some cur)
    assume "v \<noteq> u"
    then have "balance_findUnique v (update_first u ?f (balances st)) =
        balance_findUnique v (balances st)"
      unfolding balance_findUnique_def by (intro find_update_first_other) simp_all
    with Some a show ?thesis
      by (simp add: refundToCreator_def balance_upsert_def balance_update_def Let_def)
  qed
qed

lemma refundToCreator_Inr:
  "0 < a \<Longrightarrow> \<exists>x. fst (refundToCreator u a c d st) = Inr x"
  using refundToCreator_effect(1) by blast

text \<open>
  C2: for a campaign snapshot with total budget 1000, spent budget 400, funded, leaderboard
  disabled, and a ledger where the RESERVATION transactions of the campaign all belong to one
  editor and sum to 600, the campaign has no PAYOUT transaction, and the editor's balance holds
  at least 600 pending: \<open>handleCampaignEnded\<close> makes exactly one call of
  \<open>releasePending\<close>, of 600 for that editor, which succeeds and moves 600 from the editor's
  pending to available, then refunds exactly 600 to the creator's available balance through
  \<open>refundToCreator\<close>, and returns without error; the ledger gains one PAYOUT and one
  REFUND transaction of 600.
\<close>

theorem closure_releases_600_and_refunds_600:
  assumes budget: "totalBudget cd = 1000" "spentBudget cd = 400" "isFunded cd"
    and nolb: "\<not> enableLeaderboard cd" "\<not> hasLeaderboard cd"
    and one: "\<forall>t \<in> set (findManyTx c RESERVATION st). tx_userId t = e"
    and total: "sum_list (map tx_amount (findManyTx c RESERVATION st)) = 600"
    and nopay: "findManyTx c PAYOUT st = []"
    and bal: "balance_findUnique e (balances st) = Some cur"
    and pend: "600 \<le> pending cur"
  shows "(let cur' = cur\<lparr>available := available cur + 600, pending := pending cur - 600\<rparr>;
              payout = \<lparr>tx_userId = e, tx_campaignId = Some c, tx_amount = 600,
                        tx_type = PAYOUT,
                        tx_description = ''Campaign closure payout: '' @ title cd\<rparr>;
              refund = \<lparr>tx_userId = createdBy cd, tx_campaignId = Some c, tx_amount = 600,
                        tx_type = REFUND,
                        tx_description = ''Refund unused budget: '' @ title cd\<rparr>;
              st2 = snd (releasePendingStep c (title cd) st);
              st3 = snd (handleCampaignEnded c cd st)
          in fst (releasePendingStep c (title cd) st) = [(e, 600, Inr (cur', payout))]
           \<and> balance_findUnique e (balances st2) = Some cur'
           \<and> (\<forall>v. v \<noteq> e \<longrightarrow>
                  balance_findUnique v (balances st2) = balance_findUnique v (balances st))
           \<and> transactions st2 = transactions st @ [payout]
           \<and> fst (handleCampaignEnded c cd st) = Inr ()
           \<and> st3 = snd (refundToCreator (createdBy cd) 600 c
                           (''Refund unused budget: '' @ title cd) st2)
           \<and> available (fst (getBalance (createdBy cd) st3)) =
               available (fst (getBalance (createdBy cd) st2)) + 600
           \<and> pending (fst (getBalance (createdBy cd) st3)) =
               pending (fst (getBalance (createdBy cd) st2))
           \<and> (\<forall>v. v \<noteq> createdBy cd \<longrightarrow>
                  balance_findUnique v (balances st3) = balance_findUnique v (balances st2))
           \<and> transactions st3 = transactions st @ [payout, refund])"
proof -
  let ?d1 = "''Campaign closure payout: '' @ title cd"
  let ?d2 = "''Refund unused budget: '' @ title cd"
  let ?f = "\<lambda>b. b\<lparr>available := available b + 600, pending := pending b - 600\<rparr>"
  let ?cur' = "cur\<lparr>available := available cur + 600, pending := pending cur - 600\<rparr>"
  let ?payout = "\<lparr>tx_userId = e, tx_campaignId = Some c, tx_amount = 600,
                  tx_type = PAYOUT, tx_description = ?d1\<rparr>"
  let ?st2 = "st\<lparr>balances := update_first e ?f (balances st),
                 transactions := transactions st @ [?payout]\<rparr>"
  let ?creator = "createdBy cd"
  from total have ne: "findManyTx c RESERVATION st \<noteq> []" by auto
  have pendmap: "sumByEditor [] (findManyTx c RESERVATION st) = [(e, 600)]"
    using sumByEditor_one_editor[OF ne one] total by simp
  have rel: "releasePending e 600 c ?d1 st = (Inr (?cur', ?payout), ?st2)"
    using releasePending_success[OF _ bal pend, of c ?d1] by simp
  have step: "releasePendingStep c (title cd) st = ([(e, 600, Inr (?cur', ?payout))], ?st2)"
    using rel by (simp add: releasePendingStep_def pendmap nopay getOr0_def Let_def)
  have uid: "userId cur = e" using findUnique_userId[OF bal] .
  have e2: "balance_findUnique e (balances ?st2) = Some ?cur'"
    using bal uid unfolding balance_findUnique_def
    by (simp add: find_update_first_same)
  have o2: "\<And>v. v \<noteq> e \<Longrightarrow> balance_findUnique v (balances ?st2) = balance_findUnique v (balances st)"
    unfolding balance_findUnique_def by (simp add: find_update_first_other)
  obtain x where rf: "fst (refundToCreator ?creator 600 c ?d2 ?st2) = Inr x"
    using refundToCreator_Inr[of 600 ?creator c ?d2 ?st2] by auto
  have h: "handleCampaignEnded c cd st = (Inr (), snd (refundToCreator ?creator 600 c ?d2 ?st2))"
    using budget nolb step rf
    by (cases "refundToCreator ?creator 600 c ?d2 ?st2")
      (simp add: handleCampaignEnded_def Let_def)
  have g3: "fst (getBalance ?creator (snd (refundToCreator ?creator 600 c ?d2 ?st2))) =
      (fst (getBalance ?creator ?st2))\<lparr>available := available (fst (getBalance ?creator ?st2)) + 600\<rparr>"
    using refundToCreator_effect(2)[of 600 ?creator c ?d2 ?st2]
    by (simp add: getBalance_def)
  have t3: "transactions (snd (refundToCreator ?creator 600 c ?d2 ?st2)) =
      transactions st @ [?payout,
        \<lparr>tx_userId = ?creator, tx_campaignId = Some c, tx_amount = 600,
         tx_type = REFUND, tx_description = ?d2\<rparr>]"
    using refundToCreator_effect(4)[of 600 ?creator c ?d2 ?st2] by simp
  have o3: "\<And>v. v \<noteq> ?creator \<Longrightarrow>
      balance_findUnique v (balances (snd (refundToCreator ?creator 600 c ?d2 ?st2))) =
      balance_findUnique v (balances ?st2)"
    using refundToCreator_effect(3)[of 600 _ ?creator c ?d2 ?st2] by simp
  show ?thesis
    unfolding Let_def step h fst_conv snd_conv
    using e2 o2 g3 t3 o3 by simp
qed

theorem closure_releases_600_and_refunds_600_witness:
  "handleCampaignEnded ''camp1'' closureData exampleDb = (Inr (), refundedDb)"
proof -
  let ?cur = "\<lparr>userId = ''editor1'', available = 50, pending = 600\<rparr>"
  have b1: "totalBudget closureData = 1000" and b2: "spentBudget closureData = 400"
    and b3: "isFunded closureData" and l1: "\<not> enableLeaderboard closureData"
    and l2: "\<not> hasLeaderboard closureData"
    by (simp_all add: closureData_def)
  have one: "\<forall>t \<in> set (findManyTx ''camp1'' RESERVATION exampleDb). tx_userId t = ''editor1''"
    by (simp add: findManyTx_def exampleDb_def)
  have total: "sum_list (map tx_amount (findManyTx ''camp1'' RESERVATION exampleDb)) = 600"
    by (simp add: findManyTx_def exampleDb_def)
  have nopay: "findManyTx ''camp1'' PAYOUT exampleDb = []"
    by (simp add: findManyTx_def exampleDb_def)
  have bal: "balance_findUnique ''editor1'' (balances exampleDb) = Some ?cur"
    by (simp add: balance_findUnique_def exampleDb_def)
  have pend: "600 \<le> pending ?cur" by simp
  have st2: "snd (releasePendingStep ''camp1'' ''Spring'' exampleDb) = closedDb"
    using first_run_example by simp
  have st3: "snd (refundToCreator ''creator1'' 600 ''camp1'' ''Refund unused budget: Spring''
               closedDb) = refundedDb"
    by (simp add: refundToCreator_def balance_upsert_def balance_update_def balance_create_def
        balance_findUnique_def closedDb_def refundedDb_def Let_def)
  show ?thesis
    using closure_releases_600_and_refunds_600[OF b1 b2 b3 l1 l2 one total nopay bal pend]
    by (simp add: Let_def closureData_def st2 st3 prod_eq_iff)
qed

section \<open>Worked examples: leaderboard and prizes\<close>

text \<open>
  \<open>calculateLeaderboard\<close> ranks by position as well: the two clips with 30 views get the
  ranks 1 and 2, in the order in which they were fetched.
\<close>

lemma calculateLeaderboard_example:
  "map (\<lambda>e. (le_submissionId e, le_score e, le_rank e))
     (leaderboardEntries (snd (calculateLeaderboard ''camp1'' VIEWS exampleClips emptyDb))) =
   [(''clipB'', 30, 1), (''clipC'', 30, 2), (''clipA'', 10, 3), (''clipD'', 5, 4)]"
  by (simp add: calculateLeaderboard_def exampleClips_def exampleClip_def emptyDb_def
      clipScore_def orderByDesc_def entry_upsert_def entry_update_def fresh_id_def Let_def)

lemma showInt_example: "showInt 12 = ''12'' \<and> showInt (- 7) = ''-7'' \<and> showInt 0 = ''0''"
  by (simp add: showInt_def digitChar_def showNat.simps)

text \<open>
  After finalization the prize of position 1 goes to the first of the tied editors and the
  prize of position 2 to the second; a position without a row of that rank is skipped.
\<close>

lemma distributePrizes_example:
  "map (\<lambda>d. (d_position d, d_editorId d, d_amount d))
     (fst (distributePrizes ''camp1'' (snd (finalizeLeaderboard ''camp1'' prizeDb)))) =
   [(1, ''editorB'', 100), (2, ''editorC'', 50)]
   \<and> map (\<lambda>b. (userId b, available b, pending b))
     (balances (snd (distributePrizes ''camp1'' (snd (finalizeLeaderboard ''camp1'' prizeDb))))) =
   [(''editorB'', 0, 100), (''editorC'', 0, 50)]
   \<and> map tx_description
     (transactions (snd (distributePrizes ''camp1'' (snd (finalizeLeaderboard ''camp1'' prizeDb))))) =
   [''Prize: Gold (Position #1)'', ''Prize: Silver (Position #2)'']"
  by (simp add: distributePrizes_def finalizeLeaderboard_def prizeDb_def leaderboardDb_def
      exampleEntry_def orderByDesc_def orderByAsc_def entry_update_def reserveFunds_def
      balance_findUnique_def balance_update_def balance_create_def showInt_def digitChar_def
      showNat.simps
      Let_def)

end
